theory Spec2Isabelle
  imports Complex_Main "HOL-Library.Sublist"
begin

section \<open>Data model\<close>

text \<open>
  The order row as the services read and write it (\<open>Order\<close> in the backend types, the
  rows of \<open>prisma.order\<close>). JavaScript numbers that hold money are rationals here, dates
  are milliseconds since the epoch, a nullable column is an option. The column \<open>id\<close> is
  called \<open>order_id\<close>. \<open>createdAt\<close> and \<open>updatedAt\<close> start as the creation time;
  afterwards \<open>updatedAt\<close> changes where a service writes it.
\<close>

datatype order_status = Pending | Paid | Failed | Refunded

record order =
  order_id :: string
  templateId :: string
  customerEmail :: string
  formData :: string
  stripePaymentId :: string
  amount :: rat
  status :: order_status
  pdfUrl :: "string option"
  docxUrl :: "string option"
  downloadExpiry :: int
  createdAt :: int
  updatedAt :: int

record template =
  template_id :: string
  title :: string
  price :: rat

text \<open>The parameters of one \<open>stripe.refunds.create\<close> call.\<close>

record refund_params =
  rp_payment_intent :: string
  rp_amount :: "int option"
  rp_reason :: "string option"

text \<open>
  The world the backend acts on: the two tables, and a log of every call made to an
  outside collaborator (document generation, confirmation e-mail, gateway refund).
\<close>

record world =
  orders :: "order list"
  templates :: "template list"
  generated :: "(string \<times> string) list"
  emails :: "(string \<times> string) list"
  refund_calls :: "refund_params list"

datatype error = Error string | SyntaxError

text \<open>JavaScript truthiness of a possibly missing string: \<open>null\<close>, \<open>undefined\<close> and \<open>''\<close> are falsy.\<close>

fun truthy :: "string option \<Rightarrow> bool" where
  "truthy None = False"
| "truthy (Some s) = (s \<noteq> [])"

section \<open>Order table access\<close>

text \<open>\<open>prisma.order.findUnique({ where: { id } })\<close>\<close>

definition findUnique :: "string \<Rightarrow> order list \<Rightarrow> order option" where
  "findUnique i rows = find (\<lambda>r. order_id r = i) rows"

text \<open>
  \<open>prisma.order.update({ where: { id }, data })\<close>: the row with that id is rewritten and
  returned; with no such row the call throws, which is \<open>None\<close> here.
\<close>

fun update_row :: "string \<Rightarrow> (order \<Rightarrow> order) \<Rightarrow> order list \<Rightarrow> (order \<times> order list) option" where
  "update_row i f [] = None"
| "update_row i f (r # rs) =
     (if order_id r = i then Some (f r, f r # rs)
      else (case update_row i f rs of
              None \<Rightarrow> None
            | Some (r', rs') \<Rightarrow> Some (r', r # rs')))"

section \<open>OrderService\<close>

definition findTemplate :: "string \<Rightarrow> template list \<Rightarrow> template option" where
  "findTemplate i ts = find (\<lambda>t. template_id t = i) ts"

text \<open>
  \<open>createPendingOrder\<close>. The database generates the id (\<open>new_id\<close>); a row with that id
  already present makes \<open>create\<close> throw. Every failure leaves as
  \<open>Failed to create order\<close>. \<open>plusSevenDays\<close> is \<open>setDate(getDate() + 7)\<close> on a date:
  seven calendar days later in the server's local time, which the time zone decides.
\<close>

definition createPendingOrder ::
  "(int \<Rightarrow> int) \<Rightarrow> string \<Rightarrow> int \<Rightarrow> string \<Rightarrow> string \<Rightarrow> string \<Rightarrow> world \<Rightarrow>
   (error + order) \<times> world" where
  "createPendingOrder plusSevenDays new_id now tid fd email w =
     (case findTemplate tid (templates w) of
        None \<Rightarrow> (Inl (Error ''Failed to create order''), w)
      | Some t \<Rightarrow>
          (if findUnique new_id (orders w) \<noteq> None
           then (Inl (Error ''Failed to create order''), w)
           else
             (let row = \<lparr> order_id = new_id, templateId = tid, customerEmail = email,
                          formData = fd, stripePaymentId = [], amount = price t,
                          status = Pending, pdfUrl = None, docxUrl = None,
                          downloadExpiry = plusSevenDays now,
                          createdAt = now, updatedAt = now \<rparr>
              in (Inr row, w\<lparr>orders := orders w @ [row]\<rparr>))))"

text \<open>The optional third argument of \<open>updateOrderStatus\<close>.\<close>

record additional_data =
  ad_stripePaymentId :: "string option"
  ad_amount :: "rat option"

definition no_additional_data :: additional_data where
  "no_additional_data = \<lparr> ad_stripePaymentId = None, ad_amount = None \<rparr>"

text \<open>
  The \<open>updateData\<close> object of \<open>updateOrderStatus\<close> applied to a row: the status always,
  the payment id when it is truthy, the amount when it is truthy (a non-zero number).
\<close>

definition updateData :: "order_status \<Rightarrow> additional_data \<Rightarrow> order \<Rightarrow> order" where
  "updateData st ad r =
     r\<lparr> status := st,
        stripePaymentId :=
          (if truthy (ad_stripePaymentId ad) then the (ad_stripePaymentId ad)
           else stripePaymentId r),
        amount :=
          (case ad_amount ad of
             None \<Rightarrow> amount r
           | Some a \<Rightarrow> if a \<noteq> 0 then a else amount r) \<rparr>"

definition updateOrderStatus ::
  "string \<Rightarrow> order_status \<Rightarrow> additional_data \<Rightarrow> world \<Rightarrow> (error + order) \<times> world" where
  "updateOrderStatus oid st ad w =
     (case update_row oid (updateData st ad) (orders w) of
        None \<Rightarrow> (Inl (Error ''Failed to update order status''), w)
      | Some (r, rows) \<Rightarrow> (Inr r, w\<lparr>orders := rows\<rparr>))"

text \<open>
  \<open>updateOrderDocuments\<close>: a field passed as \<open>undefined\<close> (\<open>None\<close>) is left as it is.
\<close>

definition documentData :: "string option \<Rightarrow> string option \<Rightarrow> order \<Rightarrow> order" where
  "documentData pdf docx r =
     r\<lparr> pdfUrl := (case pdf of None \<Rightarrow> pdfUrl r | Some u \<Rightarrow> Some u),
        docxUrl := (case docx of None \<Rightarrow> docxUrl r | Some u \<Rightarrow> Some u) \<rparr>"

definition updateOrderDocuments ::
  "string \<Rightarrow> string option \<Rightarrow> string option \<Rightarrow> world \<Rightarrow> (error + unit) \<times> world" where
  "updateOrderDocuments oid pdf docx w =
     (case update_row oid (documentData pdf docx) (orders w) of
        None \<Rightarrow> (Inl (Error ''Failed to update order documents''), w)
      | Some (r, rows) \<Rightarrow> (Inr (), w\<lparr>orders := rows\<rparr>))"

text \<open>
  \<open>getOrderByIdAndEmail\<close>: \<open>findFirst({ where: { id, customerEmail: email } })\<close>. The
  service passes the e-mail on as it received it. How the database compares it with the
  \<open>customerEmail\<close> column is decided by the column's declaration in the Prisma schema,
  which is not part of the source: it is the parameter \<open>sameEmail\<close> (stored value
  first). \<open>exactEmail\<close> is the comparison of a plain text column of PostgreSQL, the
  database of the configuration's default URL.
\<close>

definition getOrderByIdAndEmail ::
  "(string \<Rightarrow> string \<Rightarrow> bool) \<Rightarrow> string \<Rightarrow> string \<Rightarrow> world \<Rightarrow> order option" where
  "getOrderByIdAndEmail sameEmail oid email w =
     find (\<lambda>r. order_id r = oid \<and> sameEmail (customerEmail r) email) (orders w)"

definition exactEmail :: "string \<Rightarrow> string \<Rightarrow> bool" where
  "exactEmail stored email = (stored = email)"

text \<open>The file name at the end of a stored URL: \<open>url.split('/').pop()\<close>.\<close>

definition last_segment :: "string \<Rightarrow> string" where
  "last_segment u = rev (takeWhile (\<lambda>c. c \<noteq> CHR ''/'') (rev u))"

definition documentKey :: "string \<Rightarrow> string \<Rightarrow> string" where
  "documentKey oid u = ''documents/'' @ oid @ ''/'' @ last_segment u"

text \<open>
  \<open>getDownloadLinks\<close>. \<open>getSignedUrl\<close> is the storage client's signer; \<open>None\<close> is a
  throw. Every failure leaves as \<open>Failed to generate download links\<close>.
\<close>

definition getDownloadLinks ::
  "(string \<Rightarrow> string option) \<Rightarrow> string \<Rightarrow> world \<Rightarrow> error + (string \<times> string)" where
  "getDownloadLinks getSignedUrl oid w =
     (case findUnique oid (orders w) of
        None \<Rightarrow> Inl (Error ''Failed to generate download links'')
      | Some r \<Rightarrow>
          (if \<not> truthy (pdfUrl r) \<or> \<not> truthy (docxUrl r)
           then Inl (Error ''Failed to generate download links'')
           else
             (case (getSignedUrl (documentKey oid (the (pdfUrl r))),
                    getSignedUrl (documentKey oid (the (docxUrl r)))) of
                (Some p, Some d) \<Rightarrow> Inr (p, d)
              | _ \<Rightarrow> Inl (Error ''Failed to generate download links''))))"

text \<open>
  \<open>cleanupExpiredOrders\<close>: for each paid row past its expiry, delete the stored files
  (\<open>deleteFile\<close> answers whether the delete returns) and null both URLs; a throw inside
  one row's block is logged and the loop goes on.
\<close>

definition clearDocuments :: "order \<Rightarrow> order" where
  "clearDocuments r = r\<lparr> pdfUrl := None, docxUrl := None \<rparr>"

definition cleanupOne :: "(string \<Rightarrow> bool) \<Rightarrow> order \<Rightarrow> world \<Rightarrow> world" where
  "cleanupOne deleteFile r w =
     (if truthy (pdfUrl r) \<and> \<not> deleteFile (documentKey (order_id r) (the (pdfUrl r))) then w
      else if truthy (docxUrl r) \<and> \<not> deleteFile (documentKey (order_id r) (the (docxUrl r))) then w
      else (case update_row (order_id r) clearDocuments (orders w) of
              None \<Rightarrow> w
            | Some (r', rows) \<Rightarrow> w\<lparr>orders := rows\<rparr>))"

definition cleanupExpiredOrders :: "int \<Rightarrow> (string \<Rightarrow> bool) \<Rightarrow> world \<Rightarrow> world" where
  "cleanupExpiredOrders now deleteFile w =
     fold (cleanupOne deleteFile)
       (filter (\<lambda>r. downloadExpiry r < now \<and> status r = Paid) (orders w)) w"

section \<open>PaymentService and AdminService: refunds\<close>

record refund_result =
  success :: bool
  refundId :: "string option"
  refund_amount :: "rat option"
  message :: "string option"

definition refund_failure :: "string \<Rightarrow> refund_result" where
  "refund_failure m = \<lparr> success = False, refundId = None, refund_amount = None, message = Some m \<rparr>"

text \<open>
  \<open>PaymentService.processRefund\<close>. \<open>outcome\<close> is what \<open>stripe.refunds.create\<close> does with
  the parameters: it throws with a message (\<open>Inl\<close>) or returns the refund's id and its
  amount in cents. The call itself is recorded in \<open>refund_calls\<close>.
\<close>

definition paymentService_processRefund ::
  "string \<Rightarrow> rat \<Rightarrow> string \<Rightarrow> (string + string \<times> int) \<Rightarrow> world \<Rightarrow> refund_result \<times> world" where
  "paymentService_processRefund paymentIntentId amt reason outcome w =
     (let params = \<lparr> rp_payment_intent = paymentIntentId,
                      rp_amount = (if amt \<noteq> 0 then Some (round (amt * 100)) else None),
                      rp_reason = (if reason \<noteq> [] then Some reason else None) \<rparr>;
          w' = w\<lparr>refund_calls := refund_calls w @ [params]\<rparr>
      in (case outcome of
            Inl m \<Rightarrow> (refund_failure m, w')
          | Inr (rid, cents) \<Rightarrow>
              (\<lparr> success = True, refundId = Some rid,
                 refund_amount = Some (of_int cents / 100), message = None \<rparr>, w')))"

definition markRefunded :: "int \<Rightarrow> order \<Rightarrow> order" where
  "markRefunded now r = r\<lparr> status := Refunded, updatedAt := now \<rparr>"

text \<open>\<open>AdminService.processRefund(orderId, reason, adminId)\<close>, called at time \<open>now\<close>.\<close>

definition adminService_processRefund ::
  "string \<Rightarrow> string \<Rightarrow> string \<Rightarrow> (string + string \<times> int) \<Rightarrow> int \<Rightarrow> world \<Rightarrow> refund_result \<times> world" where
  "adminService_processRefund oid reason adminId outcome now w =
     (case findUnique oid (orders w) of
        None \<Rightarrow> (refund_failure ''Order not found'', w)
      | Some r \<Rightarrow>
          (if status r \<noteq> Paid then (refund_failure ''Only paid orders can be refunded'', w)
           else if status r = Refunded then (refund_failure ''Order has already been refunded'', w)
           else
             (case paymentService_processRefund (stripePaymentId r) (amount r)
                     ''requested_by_customer'' outcome w of
                (refundResult, w1) \<Rightarrow>
                  (if \<not> success refundResult then (refundResult, w1)
                   else
                     (case update_row oid (markRefunded now) (orders w1) of
                        None \<Rightarrow> (refund_failure ''Failed to process refund'', w1)
                      | Some (r', rows) \<Rightarrow>
                          (\<lparr> success = True, refundId = refundId refundResult,
                             refund_amount = refund_amount refundResult, message = None \<rparr>,
                           w1\<lparr>orders := rows\<rparr>))))))"

section \<open>Payment webhook\<close>

record session =
  session_id :: string
  metadata :: "string \<rightharpoonup> string"
  payment_intent :: "string option"
  amount_total :: "int option"

record event =
  event_id :: string
  event_type :: string
  event_object :: session

text \<open>
  What the outside collaborators do during one request: whether \<open>JSON.parse\<close> accepts the
  form data of the metadata, what \<open>generateDocuments\<close> returns (\<open>None\<close>: it throws), and
  whether \<open>sendOrderConfirmation\<close> returns.
\<close>

record effects =
  json_parses :: bool
  documents :: "(string \<times> string) option"
  mail_sent :: bool

text \<open>
  \<open>handleCheckoutSessionCompleted\<close>. A \<open>null\<close> metadata is the empty map
  (\<open>session.metadata || {}\<close>). The handler logs and rethrows whatever is thrown.
  \<open>sessionAmount\<close> and \<open>paidData\<close> are the third argument it passes to
  \<open>updateOrderStatus\<close>: the payment intent, and \<open>amount_total / 100\<close> or \<open>0\<close>.
\<close>

definition sessionAmount :: "session \<Rightarrow> rat" where
  "sessionAmount s =
     (case amount_total s of
        None \<Rightarrow> 0
      | Some n \<Rightarrow> if n \<noteq> 0 then of_int n / 100 else 0)"

definition paidData :: "session \<Rightarrow> additional_data" where
  "paidData s = \<lparr> ad_stripePaymentId = payment_intent s, ad_amount = Some (sessionAmount s) \<rparr>"

definition handleCheckoutSessionCompleted ::
  "effects \<Rightarrow> session \<Rightarrow> world \<Rightarrow> (error + unit) \<times> world" where
  "handleCheckoutSessionCompleted fx s w =
     (if \<not> truthy (metadata s ''orderId'') \<or> \<not> truthy (metadata s ''templateId'') \<or>
         \<not> truthy (metadata s ''customerEmail'') \<or> \<not> truthy (metadata s ''formData'')
      then (Inl (Error ''Missing required metadata in checkout session''), w)
      else
        (let oid = the (metadata s ''orderId'');
             tid = the (metadata s ''templateId'');
             email = the (metadata s ''customerEmail'')
         in (case updateOrderStatus oid Paid (paidData s) w of
               (Inl e, w1) \<Rightarrow> (Inl e, w1)
             | (Inr ord, w1) \<Rightarrow>
                 (if \<not> json_parses fx then (Inl SyntaxError, w1)
                  else
                    (let w2 = w1\<lparr>generated := generated w1 @ [(tid, order_id ord)]\<rparr>
                     in (case documents fx of
                           None \<Rightarrow> (Inl (Error ''Failed to generate documents''), w2)
                         | Some (pdf, docx) \<Rightarrow>
                             (case updateOrderDocuments oid (Some pdf) (Some docx) w2 of
                                (Inl e, w3) \<Rightarrow> (Inl e, w3)
                              | (Inr u, w3) \<Rightarrow>
                                  (let w4 = w3\<lparr>emails := emails w3 @ [(email, order_id ord)]\<rparr>
                                   in (if mail_sent fx then (Inr (), w4)
                                       else (Inl (Error ''Failed to send confirmation email''),
                                             w4))))))))))"

text \<open>\<open>handleCheckoutSessionExpired\<close>: its own \<open>catch\<close> logs and swallows the error.\<close>

definition handleCheckoutSessionExpired :: "session \<Rightarrow> world \<Rightarrow> world" where
  "handleCheckoutSessionExpired s w =
     (if truthy (metadata s ''orderId'')
      then snd (updateOrderStatus (the (metadata s ''orderId'')) Failed no_additional_data w)
      else w)"

record webhook_request =
  signature :: "string option"
  body :: string

datatype webhook_response = Received | SignatureMissing | SignatureInvalid

fun webhook_status :: "webhook_response \<Rightarrow> nat" where
  "webhook_status Received = 200"
| "webhook_status SignatureMissing = 400"
| "webhook_status SignatureInvalid = 400"

text \<open>
  \<open>router.post('/webhook')\<close>. \<open>constructEvent body sig\<close> is
  \<open>stripe.webhooks.constructEvent\<close> with the configured secret: the verified event, or
  \<open>None\<close> when it throws. One \<open>try\<close> block holds the verification and the dispatch, and
  its \<open>catch\<close> answers \<open>WEBHOOK_SIGNATURE_INVALID\<close>.
\<close>

definition webhook ::
  "(string \<Rightarrow> string \<Rightarrow> event option) \<Rightarrow> effects \<Rightarrow> webhook_request \<Rightarrow> world \<Rightarrow>
   webhook_response \<times> world" where
  "webhook constructEvent fx req w =
     (if \<not> truthy (signature req) then (SignatureMissing, w)
      else
        (case constructEvent (body req) (the (signature req)) of
           None \<Rightarrow> (SignatureInvalid, w)
         | Some ev \<Rightarrow>
             (if event_type ev = ''checkout.session.completed'' then
                (case handleCheckoutSessionCompleted fx (event_object ev) w of
                   (Inl e, w') \<Rightarrow> (SignatureInvalid, w')
                 | (Inr u, w') \<Rightarrow> (Received, w'))
              else if event_type ev = ''checkout.session.expired'' then
                (Received, handleCheckoutSessionExpired (event_object ev) w)
              else (Received, w))))"

section \<open>Customer routes\<close>

datatype api_response =
    ValidationError
  | OrderNotFound
  | OrderNotPaid
  | DownloadExpired
  | DocumentsNotReady
  | InternalError
  | DownloadLinks string string int
  | OrderInfo string string order_status rat int int int

fun api_status :: "api_response \<Rightarrow> nat" where
  "api_status ValidationError = 400"
| "api_status OrderNotFound = 404"
| "api_status OrderNotPaid = 403"
| "api_status DownloadExpired = 410"
| "api_status DocumentsNotReady = 503"
| "api_status InternalError = 500"
| "api_status (DownloadLinks p d e) = 200"
| "api_status (OrderInfo i t s a c u e) = 200"

text \<open>
  \<open>GET /api/orders/:id\<close> and \<open>GET /api/orders/:id/download\<close>, at time \<open>now\<close>. The
  validation chains come first: \<open>param('id').notEmpty()\<close> and \<open>query('email').isEmail()\<close>,
  where \<open>isEmail\<close> is the validator library's predicate. \<open>sameEmail\<close> is the database's
  comparison on the e-mail column, as in \<open>getOrderByIdAndEmail\<close>.
\<close>

definition getOrder ::
  "(string \<Rightarrow> bool) \<Rightarrow> (string \<Rightarrow> string \<Rightarrow> bool) \<Rightarrow> string \<Rightarrow> string \<Rightarrow> world \<Rightarrow>
   api_response" where
  "getOrder isEmail sameEmail oid email w =
     (if oid = [] \<or> \<not> isEmail email then ValidationError
      else
        (case getOrderByIdAndEmail sameEmail oid email w of
           None \<Rightarrow> OrderNotFound
         | Some r \<Rightarrow>
             OrderInfo (order_id r) (templateId r) (status r) (amount r)
               (createdAt r) (updatedAt r) (downloadExpiry r)))"

definition download ::
  "(string \<Rightarrow> bool) \<Rightarrow> (string \<Rightarrow> string \<Rightarrow> bool) \<Rightarrow> (string \<Rightarrow> string option) \<Rightarrow> int \<Rightarrow>
   string \<Rightarrow> string \<Rightarrow> world \<Rightarrow> api_response" where
  "download isEmail sameEmail getSignedUrl now oid email w =
     (if oid = [] \<or> \<not> isEmail email then ValidationError
      else
        (case getOrderByIdAndEmail sameEmail oid email w of
           None \<Rightarrow> OrderNotFound
         | Some r \<Rightarrow>
             (if status r \<noteq> Paid then OrderNotPaid
              else if now > downloadExpiry r then DownloadExpired
              else if \<not> truthy (pdfUrl r) \<or> \<not> truthy (docxUrl r) then DocumentsNotReady
              else
                (case getDownloadLinks getSignedUrl oid w of
                   Inl e \<Rightarrow> InternalError
                 | Inr (p, d) \<Rightarrow> DownloadLinks p d (downloadExpiry r)))))"

section \<open>Runs of the backend\<close>

text \<open>
  One operation of the backend with everything the outside decides for it:
  the checkout request (of which only \<open>createPendingOrder\<close> touches the tables), a
  webhook delivery, an admin refund, a clean-up pass.
\<close>

datatype op =
    CreateOrder "int \<Rightarrow> int" string int string string string
  | Webhook effects webhook_request
  | Refund string string string "string + string \<times> int" int
  | Cleanup int "string \<Rightarrow> bool"

fun step :: "(string \<Rightarrow> string \<Rightarrow> event option) \<Rightarrow> op \<Rightarrow> world \<Rightarrow> world" where
  "step ce (CreateOrder plusSevenDays new_id now tid fd email) w =
     snd (createPendingOrder plusSevenDays new_id now tid fd email w)"
| "step ce (Webhook fx req) w = snd (webhook ce fx req w)"
| "step ce (Refund oid reason adminId outcome now) w =
     snd (adminService_processRefund oid reason adminId outcome now w)"
| "step ce (Cleanup now deleteFile) w = cleanupExpiredOrders now deleteFile w"

definition run :: "(string \<Rightarrow> string \<Rightarrow> event option) \<Rightarrow> op list \<Rightarrow> world \<Rightarrow> world" where
  "run ce ops w = fold (step ce) ops w"

text \<open>The backend before any order exists, with a given template table.\<close>

definition initial :: "template list \<Rightarrow> world" where
  "initial ts = \<lparr> orders = [], templates = ts, generated = [], emails = [], refund_calls = [] \<rparr>"

section \<open>A concrete shop\<close>

text \<open>
  One template at 9.99, one customer, and the Stripe events of one checkout: the session
  completed (999 cents collected), the same session reported with 500 cents, and the
  session expired. \<open>ex_constructEvent\<close> accepts the signature \<open>good\<close> only and reads the
  event off the body.
\<close>

definition ex_template :: template where
  "ex_template = \<lparr> template_id = ''nda'', title = ''NDA'', price = 999 / 100 \<rparr>"

definition ex_session :: session where
  "ex_session =
     \<lparr> session_id = ''cs_1'',
       metadata = [''orderId'' \<mapsto> ''o1'', ''templateId'' \<mapsto> ''nda'',
                   ''customerEmail'' \<mapsto> ''ann@example.com'', ''formData'' \<mapsto> ''{}''],
       payment_intent = Some ''pi_1'',
       amount_total = Some 999 \<rparr>"

definition ex_completed :: event where
  "ex_completed =
     \<lparr> event_id = ''evt_1'', event_type = ''checkout.session.completed'',
       event_object = ex_session \<rparr>"

definition ex_underpaid :: event where
  "ex_underpaid =
     \<lparr> event_id = ''evt_2'', event_type = ''checkout.session.completed'',
       event_object = ex_session\<lparr>amount_total := Some 500\<rparr> \<rparr>"

definition ex_expired :: event where
  "ex_expired =
     \<lparr> event_id = ''evt_3'', event_type = ''checkout.session.expired'',
       event_object = ex_session\<lparr>payment_intent := None, amount_total := None\<rparr> \<rparr>"

definition ex_no_metadata :: event where
  "ex_no_metadata =
     \<lparr> event_id = ''evt_4'', event_type = ''checkout.session.completed'',
       event_object = ex_session\<lparr>metadata := Map.empty\<rparr> \<rparr>"

definition ex_constructEvent :: "string \<Rightarrow> string \<Rightarrow> event option" where
  "ex_constructEvent b sg =
     (if sg \<noteq> ''good'' then None
      else if b = ''completed'' then Some ex_completed
      else if b = ''underpaid'' then Some ex_underpaid
      else if b = ''expired'' then Some ex_expired
      else if b = ''no metadata'' then Some ex_no_metadata
      else None)"

definition signed :: "string \<Rightarrow> webhook_request" where
  "signed b = \<lparr> signature = Some ''good'', body = b \<rparr>"

definition all_fine :: effects where
  "all_fine = \<lparr> json_parses = True,
                documents = Some (''https://r2/documents/o1/o1.pdf'', ''https://r2/documents/o1/o1.docx''),
                mail_sent = True \<rparr>"

text \<open>The shop's server keeps UTC: seven calendar days are always 604800000 ms.\<close>

definition utc_plusSevenDays :: "int \<Rightarrow> int" where
  "utc_plusSevenDays t = t + 7 * 24 * 60 * 60 * 1000"

definition ex_create :: op where
  "ex_create = CreateOrder utc_plusSevenDays ''o1'' 1000 ''nda'' ''{}'' ''ann@example.com''"

text \<open>The order of the shop once created, and once paid and fulfilled.\<close>

definition ex_pending :: world where
  "ex_pending = run ex_constructEvent [ex_create] (initial [ex_template])"

definition ex_paid :: world where
  "ex_paid = run ex_constructEvent [ex_create, Webhook all_fine (signed ''completed'')]
               (initial [ex_template])"

text \<open>The shop after a second customer's checkout, both orders pending.\<close>

definition ex_two :: world where
  "ex_two = run ex_constructEvent
              [ex_create,
               CreateOrder utc_plusSevenDays ''o2'' 2000 ''nda'' ''{}'' ''bob@example.com'']
              (initial [ex_template])"

text \<open>
  A stand-in for the validator's \<open>isEmail\<close> and for the storage signer, and the time
  eight days after the order was created.
\<close>

definition ex_isEmail :: "string \<Rightarrow> bool" where
  "ex_isEmail e = (CHR ''@'' \<in> set e)"

definition ex_getSignedUrl :: "string \<Rightarrow> string option" where
  "ex_getSignedUrl k = Some (''https://r2/'' @ k @ ''?signed'')"

definition eight_days_later :: int where
  "eight_days_later = 1000 + 8 * 24 * 60 * 60 * 1000"



text \<open>
  The artifact pointers of an order: the stored URLs that are not \<open>null\<close>. An order is
  \<open>settled\<close> when it has no pointer or is no longer pending.
\<close>

definition artifacts :: "order \<Rightarrow> string list" where
  "artifacts r =
     (case pdfUrl r of None \<Rightarrow> [] | Some u \<Rightarrow> [u]) @
     (case docxUrl r of None \<Rightarrow> [] | Some u \<Rightarrow> [u])"

definition settled :: "order \<Rightarrow> bool" where
  "settled r = (artifacts r = [] \<or> status r \<noteq> Pending)"

section \<open>Helper lemmas on the order table\<close>

lemma update_row_None: "update_row i f rows = None \<longleftrightarrow> findUnique i rows = None"
  by (induction rows) (auto simp: findUnique_def split: option.splits)

lemma update_row_Some_find:
  "update_row i f rows = Some (r', rows') \<Longrightarrow> \<exists>r. findUnique i rows = Some r \<and> r' = f r"
  by (induction rows arbitrary: rows') (auto simp: findUnique_def split: option.splits if_splits)

lemma find_update_row:
  "findUnique i rows = Some r \<Longrightarrow> \<exists>rows'. update_row i f rows = Some (f r, rows')"
  by (induction rows) (auto simp: findUnique_def split: option.splits if_splits)

lemma update_row_map_inv:
  "update_row i f rows = Some (r', rows') \<Longrightarrow> (\<And>r. g (f r) = g r) \<Longrightarrow> map g rows' = map g rows"
  by (induction rows arbitrary: rows') (auto split: option.splits if_splits)

lemma update_row_find_same:
  "update_row i f rows = Some (r', rows') \<Longrightarrow> (\<And>r. order_id (f r) = order_id r) \<Longrightarrow>
   findUnique i rows' = Some r'"
  by (induction rows arbitrary: rows') (auto simp: findUnique_def split: option.splits if_splits)

lemma update_row_missing: "findUnique i rows = None \<Longrightarrow> update_row i f rows = None"
  by (simp add: update_row_None)

lemma updateData_id: "order_id (updateData st ad r) = order_id r"
  by (simp add: updateData_def)

lemma updateData_status: "status (updateData st ad r) = st"
  by (simp add: updateData_def)

lemma updateOrderStatus_missing:
  "findUnique oid (orders w) = None \<Longrightarrow>
   updateOrderStatus oid st ad w = (Inl (Error ''Failed to update order status''), w)"
  by (simp add: updateOrderStatus_def update_row_missing)

lemma updateOrderStatus_found:
  assumes "findUnique oid (orders w) = Some r"
  shows "\<exists>w'. updateOrderStatus oid st ad w = (Inr (updateData st ad r), w') \<and>
              findUnique oid (orders w') = Some (updateData st ad r)"
proof -
  from find_update_row [OF assms, of "updateData st ad"]
  obtain rows where u: "update_row oid (updateData st ad) (orders w) = Some (updateData st ad r, rows)"
    by blast
  have "findUnique oid rows = Some (updateData st ad r)"
    using update_row_find_same [OF u] by (simp add: updateData_id)
  with u show ?thesis by (simp add: updateOrderStatus_def)
qed

section \<open>C2: status transitions\<close>

text \<open>
  C2 as stated fails: a transition out of a terminal state is not refused. The shop's
  order, paid and fulfilled, receives the verified \<open>checkout.session.expired\<close> event of
  its session; the webhook answers 200 and the order is now \<open>failed\<close>.
\<close>

theorem session_expired_overwrites_paid:
  "map status (orders ex_paid) = [Paid] \<and>
   fst (webhook ex_constructEvent all_fine (signed ''expired'') ex_paid) = Received \<and>
   map status (orders (snd (webhook ex_constructEvent all_fine (signed ''expired'') ex_paid)))
     = [Failed]"
  by code_simp

text \<open>
  C2, amended: \<open>updateOrderStatus\<close> has no transition table and raises no
  \<open>InvalidTransition\<close>. It fails only when no order has the id, and then the store is
  unchanged. For an existing order, whatever its current status (terminal or not) and
  whatever the requested one, the write is applied: the returned order and the stored
  one carry the requested status. In particular a \<open>session_expired\<close> event that names an
  existing order, paid or not, leaves it \<open>failed\<close>.
\<close>

theorem updateOrderStatus_unconditional:
  "(findUnique oid (orders w) = None \<longrightarrow>
      updateOrderStatus oid st ad w = (Inl (Error ''Failed to update order status''), w)) \<and>
   (\<forall>r. findUnique oid (orders w) = Some r \<longrightarrow>
      (\<exists>w'. updateOrderStatus oid st ad w = (Inr (updateData st ad r), w') \<and>
            status (updateData st ad r) = st \<and>
            findUnique oid (orders w') = Some (updateData st ad r))) \<and>
   (\<forall>r. findUnique oid (orders w) = Some r \<and> oid \<noteq> [] \<and> metadata s ''orderId'' = Some oid \<longrightarrow>
      map_option status (findUnique oid (orders (handleCheckoutSessionExpired s w)))
        = Some Failed)"
proof (intro conjI allI impI)
  assume "findUnique oid (orders w) = None"
  then show "updateOrderStatus oid st ad w = (Inl (Error ''Failed to update order status''), w)"
    by (rule updateOrderStatus_missing)
next
  fix r assume "findUnique oid (orders w) = Some r"
  from updateOrderStatus_found [OF this, of st ad]
  show "\<exists>w'. updateOrderStatus oid st ad w = (Inr (updateData st ad r), w') \<and>
            status (updateData st ad r) = st \<and>
            findUnique oid (orders w') = Some (updateData st ad r)"
    by (auto simp: updateData_status)
next
  fix r
  assume a: "findUnique oid (orders w) = Some r \<and> oid \<noteq> [] \<and> metadata s ''orderId'' = Some oid"
  from updateOrderStatus_found [of oid w r Failed no_additional_data] a
  obtain w' where
    "updateOrderStatus oid Failed no_additional_data w
       = (Inr (updateData Failed no_additional_data r), w')"
    and "findUnique oid (orders w') = Some (updateData Failed no_additional_data r)"
    by blast
  with a show "map_option status (findUnique oid (orders (handleCheckoutSessionExpired s w)))
                 = Some Failed"
    by (simp add: handleCheckoutSessionExpired_def updateData_status)
qed

text \<open>The amended C2 at the shop's paid order and its expired-session event.\<close>

theorem updateOrderStatus_unconditional_witness:
  "map_option status (findUnique ''o1'' (orders ex_paid)) = Some Paid \<and>
   metadata (event_object ex_expired) ''orderId'' = Some ''o1'' \<and>
   map_option status (findUnique ''o1''
      (orders (handleCheckoutSessionExpired (event_object ex_expired) ex_paid))) = Some Failed"
proof -
  have h1: "map_option status (findUnique ''o1'' (orders ex_paid)) = Some Paid"
    by code_simp
  have h2: "metadata (event_object ex_expired) ''orderId'' = Some ''o1''"
    by (simp add: ex_expired_def ex_session_def)
  from h1 obtain r where h3: "findUnique ''o1'' (orders ex_paid) = Some r"
    by auto
  from updateOrderStatus_unconditional
         [of "''o1''" ex_paid Failed no_additional_data "event_object ex_expired"] h2 h3
  have "map_option status (findUnique ''o1''
      (orders (handleCheckoutSessionExpired (event_object ex_expired) ex_paid))) = Some Failed"
    by simp
  with h1 h2 show ?thesis by simp
qed

lemma findUnique_id: "findUnique i rows = Some r \<Longrightarrow> order_id r = i"
  unfolding findUnique_def by (induction rows) (auto split: if_splits)

lemma documentData_id: "order_id (documentData p d r) = order_id r"
  by (simp add: documentData_def)

lemma documentData_status: "status (documentData p d r) = status r"
  by (simp add: documentData_def)

text \<open>One delivery of a completed-session event on which nothing fails.\<close>

lemma handle_completed_ok:
  assumes md: "metadata s ''orderId'' = Some oid" "oid \<noteq> []"
              "metadata s ''templateId'' = Some tid" "tid \<noteq> []"
              "metadata s ''customerEmail'' = Some email" "email \<noteq> []"
              "metadata s ''formData'' = Some fd" "fd \<noteq> []"
    and found: "findUnique oid (orders w) = Some r"
    and fx: "json_parses fx" "documents fx = Some (p, d)" "mail_sent fx"
  shows "\<exists>w'. handleCheckoutSessionCompleted fx s w = (Inr (), w') \<and>
              generated w' = generated w @ [(tid, oid)] \<and>
              emails w' = emails w @ [(email, oid)] \<and>
              findUnique oid (orders w')
                = Some (documentData (Some p) (Some d) (updateData Paid (paidData s) r))"
proof -
  let ?r1 = "updateData Paid (paidData s) r"
  let ?r2 = "documentData (Some p) (Some d) ?r1"
  from find_update_row [OF found, of "updateData Paid (paidData s)"]
  obtain rows1 where
    u1: "update_row oid (updateData Paid (paidData s)) (orders w) = Some (?r1, rows1)"
    by blast
  have f1: "findUnique oid rows1 = Some ?r1"
    using update_row_find_same [OF u1] by (simp add: updateData_id)
  from find_update_row [OF f1, of "documentData (Some p) (Some d)"]
  obtain rows2 where
    u2: "update_row oid (documentData (Some p) (Some d)) rows1 = Some (?r2, rows2)"
    by blast
  have f2: "findUnique oid rows2 = Some ?r2"
    using update_row_find_same [OF u2] by (simp add: documentData_id)
  have id1: "order_id ?r1 = oid"
    using findUnique_id [OF found] by (simp add: updateData_id)
  show ?thesis
    using md fx u1 u2 f2 id1
    by (simp add: handleCheckoutSessionCompleted_def updateOrderStatus_def
          updateOrderDocuments_def)
qed

section \<open>C1: re-delivery of a webhook event\<close>

text \<open>
  C1 as stated fails: the webhook keeps no record of event ids. The shop's pending order
  receives the verified event \<open>evt_1\<close> twice; both deliveries are answered 200, and
  document generation was invoked twice and the confirmation e-mail sent twice.
\<close>

theorem same_event_twice_fulfils_twice:
  "fst (webhook ex_constructEvent all_fine (signed ''completed'') ex_pending) = Received \<and>
   fst (webhook ex_constructEvent all_fine (signed ''completed'') ex_paid) = Received \<and>
   ex_paid = snd (webhook ex_constructEvent all_fine (signed ''completed'') ex_pending) \<and>
   generated (snd (webhook ex_constructEvent all_fine (signed ''completed'') ex_paid))
     = [(''nda'', ''o1''), (''nda'', ''o1'')] \<and>
   emails (snd (webhook ex_constructEvent all_fine (signed ''completed'') ex_paid))
     = [(''ann@example.com'', ''o1''), (''ann@example.com'', ''o1'')]"
  by code_simp

text \<open>
  C1, amended: every verified delivery of a \<open>checkout.session.completed\<close> event is
  processed in full, whether or not the same event was delivered before. When the event
  carries its four metadata fields, names an existing order, and nothing fails, two
  deliveries of the same request are both answered 200 and together invoke document
  generation twice and send the confirmation e-mail twice; the order ends \<open>paid\<close>.
\<close>

theorem each_delivery_is_processed:
  assumes sg: "truthy (signature req)"
    and ev: "ce (body req) (the (signature req)) = Some ev"
            "event_type ev = ''checkout.session.completed''"
    and md: "metadata (event_object ev) ''orderId'' = Some oid" "oid \<noteq> []"
            "metadata (event_object ev) ''templateId'' = Some tid" "tid \<noteq> []"
            "metadata (event_object ev) ''customerEmail'' = Some email" "email \<noteq> []"
            "metadata (event_object ev) ''formData'' = Some fd" "fd \<noteq> []"
    and found: "findUnique oid (orders w) = Some r"
    and fxa: "json_parses fxa" "documents fxa = Some (pa, da)" "mail_sent fxa"
    and fxb: "json_parses fxb" "documents fxb = Some (pb, db)" "mail_sent fxb"
  shows "\<exists>w1 w2. webhook ce fxa req w = (Received, w1) \<and>
                 webhook ce fxb req w1 = (Received, w2) \<and>
                 generated w2 = generated w @ [(tid, oid), (tid, oid)] \<and>
                 emails w2 = emails w @ [(email, oid), (email, oid)] \<and>
                 map_option status (findUnique oid (orders w2)) = Some Paid"
proof -
  let ?s = "event_object ev"
  from handle_completed_ok [OF md found fxa]
  obtain w1 where h1: "handleCheckoutSessionCompleted fxa ?s w = (Inr (), w1)"
    and g1: "generated w1 = generated w @ [(tid, oid)]"
    and e1: "emails w1 = emails w @ [(email, oid)]"
    and f1: "findUnique oid (orders w1)
               = Some (documentData (Some pa) (Some da) (updateData Paid (paidData ?s) r))"
    by blast
  from handle_completed_ok [OF md f1 fxb]
  obtain w2 where h2: "handleCheckoutSessionCompleted fxb ?s w1 = (Inr (), w2)"
    and g2: "generated w2 = generated w1 @ [(tid, oid)]"
    and e2: "emails w2 = emails w1 @ [(email, oid)]"
    and f2: "findUnique oid (orders w2)
               = Some (documentData (Some pb) (Some db) (updateData Paid (paidData ?s)
                    (documentData (Some pa) (Some da) (updateData Paid (paidData ?s) r))))"
    by blast
  have "webhook ce fxa req w = (Received, w1)"
    using sg ev h1 by (simp add: webhook_def)
  moreover have "webhook ce fxb req w1 = (Received, w2)"
    using sg ev h2 by (simp add: webhook_def)
  moreover have "map_option status (findUnique oid (orders w2)) = Some Paid"
    using f2 by (simp add: documentData_status updateData_status)
  ultimately show ?thesis using g1 g2 e1 e2 by simp
qed

text \<open>The amended C1 at the shop's pending order and event \<open>evt_1\<close>.\<close>

theorem each_delivery_is_processed_witness:
  "truthy (signature (signed ''completed'')) \<and>
   ex_constructEvent (body (signed ''completed'')) (the (signature (signed ''completed'')))
     = Some ex_completed \<and>
   map_option status (findUnique ''o1'' (orders ex_pending)) = Some Pending \<and>
   (\<exists>w1 w2. webhook ex_constructEvent all_fine (signed ''completed'') ex_pending = (Received, w1) \<and>
            webhook ex_constructEvent all_fine (signed ''completed'') w1 = (Received, w2) \<and>
            generated w2 = generated ex_pending @ [(''nda'', ''o1''), (''nda'', ''o1'')] \<and>
            emails w2 = emails ex_pending
               @ [(''ann@example.com'', ''o1''), (''ann@example.com'', ''o1'')] \<and>
            map_option status (findUnique ''o1'' (orders w2)) = Some Paid)"
proof -
  have sg: "truthy (signature (signed ''completed''))"
    by (simp add: signed_def)
  have ev: "ex_constructEvent (body (signed ''completed'')) (the (signature (signed ''completed'')))
              = Some ex_completed"
    by (simp add: signed_def ex_constructEvent_def)
  have ty: "event_type ex_completed = ''checkout.session.completed''"
    by (simp add: ex_completed_def)
  have md: "metadata (event_object ex_completed) ''orderId'' = Some ''o1''"
           "metadata (event_object ex_completed) ''templateId'' = Some ''nda''"
           "metadata (event_object ex_completed) ''customerEmail'' = Some ''ann@example.com''"
           "metadata (event_object ex_completed) ''formData'' = Some ''{}''"
    by (simp_all add: ex_completed_def ex_session_def)
  have st: "map_option status (findUnique ''o1'' (orders ex_pending)) = Some Pending"
    by code_simp
  then obtain r where found: "findUnique ''o1'' (orders ex_pending) = Some r"
    by auto
  have fx: "json_parses all_fine" "mail_sent all_fine"
    "documents all_fine = Some (''https://r2/documents/o1/o1.pdf'', ''https://r2/documents/o1/o1.docx'')"
    by (simp_all add: all_fine_def)
  from each_delivery_is_processed
         [where ce = ex_constructEvent and req = "signed ''completed''" and ev = ex_completed
            and w = ex_pending and fxa = all_fine and fxb = all_fine,
          OF sg ev ty md(1) _ md(2) _ md(3) _ md(4) _ found fx(1) fx(3) fx(2) fx(1) fx(3) fx(2)]
  have "\<exists>w1 w2. webhook ex_constructEvent all_fine (signed ''completed'') ex_pending = (Received, w1) \<and>
            webhook ex_constructEvent all_fine (signed ''completed'') w1 = (Received, w2) \<and>
            generated w2 = generated ex_pending @ [(''nda'', ''o1''), (''nda'', ''o1'')] \<and>
            emails w2 = emails ex_pending
               @ [(''ann@example.com'', ''o1''), (''ann@example.com'', ''o1'')] \<and>
            map_option status (findUnique ''o1'' (orders w2)) = Some Paid"
    by simp
  with sg ev st show ?thesis by blast
qed

section \<open>C3: what the webhook answers\<close>

text \<open>
  C3 on the code: a request with a valid signature is answered 400 when the completed
  handler throws. The verified event \<open>evt_1\<close> reaches the shop's pending order while
  document generation fails: the order is marked \<open>paid\<close>, generation was invoked once,
  and the answer is \<open>WEBHOOK_SIGNATURE_INVALID\<close> with status 400. The same answer is
  given to a verified event without metadata.
\<close>

theorem verified_event_answered_400:
  "map_option event_type
     (ex_constructEvent (body (signed ''completed'')) (the (signature (signed ''completed''))))
     = Some ''checkout.session.completed'' \<and>
   fst (webhook ex_constructEvent (all_fine\<lparr>documents := None\<rparr>) (signed ''completed'') ex_pending)
     = SignatureInvalid \<and>
   webhook_status
     (fst (webhook ex_constructEvent (all_fine\<lparr>documents := None\<rparr>) (signed ''completed'')
        ex_pending)) = 400 \<and>
   map status
     (orders (snd (webhook ex_constructEvent (all_fine\<lparr>documents := None\<rparr>)
        (signed ''completed'') ex_pending))) = [Paid] \<and>
   generated (snd (webhook ex_constructEvent (all_fine\<lparr>documents := None\<rparr>)
        (signed ''completed'') ex_pending)) = [(''nda'', ''o1'')] \<and>
   webhook ex_constructEvent all_fine (signed ''no metadata'') ex_pending
     = (SignatureInvalid, ex_pending)"
  by code_simp

section \<open>C4: the download window\<close>

















section \<open>C5: artifacts and status\<close>

lemma update_row_list_all:
  "update_row i f rows = Some (r', rows') \<Longrightarrow> list_all P rows \<Longrightarrow>
   (\<And>r. findUnique i rows = Some r \<Longrightarrow> P (f r)) \<Longrightarrow> list_all P rows'"
  by (induction rows arbitrary: rows') (auto simp: findUnique_def split: option.splits if_splits)

lemma settled_updateData: "st \<noteq> Pending \<Longrightarrow> settled (updateData st ad r)"
  by (simp add: settled_def updateData_def)

lemma settled_documentData: "status r \<noteq> Pending \<Longrightarrow> settled (documentData p d r)"
  by (simp add: settled_def documentData_def)

lemma settled_markRefunded: "settled (markRefunded now r)"
  by (simp add: settled_def markRefunded_def)

lemma settled_clearDocuments: "settled (clearDocuments r)"
  by (simp add: settled_def clearDocuments_def artifacts_def)

lemma updateOrderStatus_settled:
  assumes "st \<noteq> Pending" "list_all settled (orders w)"
    and "updateOrderStatus oid st ad w = (res, w1)"
  shows "list_all settled (orders w1) \<and>
         (\<forall>r. res = Inr r \<longrightarrow> findUnique oid (orders w1) = Some r \<and> status r = st)"
proof (cases "update_row oid (updateData st ad) (orders w)")
  case None
  with assms show ?thesis by (auto simp: updateOrderStatus_def)
next
  case (Some a)
  obtain r rows where a: "a = (r, rows)" by (cases a)
  with Some have u: "update_row oid (updateData st ad) (orders w) = Some (r, rows)" by simp
  have "list_all settled rows"
    using update_row_list_all [OF u assms(2)] assms(1) by (simp add: settled_updateData)
  moreover have "findUnique oid rows = Some r"
    using update_row_find_same [OF u] by (simp add: updateData_id)
  moreover have "status r = st"
    using update_row_Some_find [OF u] by (auto simp: updateData_status)
  ultimately show ?thesis using assms(3) u by (auto simp: updateOrderStatus_def)
qed

lemma updateOrderDocuments_settled:
  assumes "list_all settled (orders w)"
    and "findUnique oid (orders w) = Some r" "status r \<noteq> Pending"
  shows "list_all settled (orders (snd (updateOrderDocuments oid p d w)))"
proof (cases "update_row oid (documentData p d) (orders w)")
  case None
  with assms show ?thesis by (simp add: updateOrderDocuments_def)
next
  case (Some a)
  obtain r' rows where "a = (r', rows)" by (cases a)
  with Some have u: "update_row oid (documentData p d) (orders w) = Some (r', rows)" by simp
  have "list_all settled rows"
    using update_row_list_all [OF u assms(1)] assms(2,3) by (simp add: settled_documentData)
  with u show ?thesis by (simp add: updateOrderDocuments_def)
qed

lemma handleCompleted_settled:
  assumes "list_all settled (orders w)"
  shows "list_all settled (orders (snd (handleCheckoutSessionCompleted fx s w)))"
proof -
  let ?oid = "the (metadata s ''orderId'')"
  obtain res w1 where u: "updateOrderStatus ?oid Paid (paidData s) w = (res, w1)"
    by (cases "updateOrderStatus ?oid Paid (paidData s) w")
  from updateOrderStatus_settled [OF _ assms u]
  have s1: "list_all settled (orders w1)"
    and f1: "\<And>r. res = Inr r \<Longrightarrow> findUnique ?oid (orders w1) = Some r \<and> status r = Paid"
    by auto
  show ?thesis
  proof (cases res)
    case (Inl e)
    with u s1 assms show ?thesis
      by (simp add: handleCheckoutSessionCompleted_def)
  next
    case (Inr r)
    let ?w2 = "w1\<lparr>generated := generated w1 @ [(the (metadata s ''templateId''), order_id r)]\<rparr>"
    from f1 [OF Inr] have f: "findUnique ?oid (orders ?w2) = Some r" "status r \<noteq> Pending"
      by simp_all
    have s2: "list_all settled (orders ?w2)" using s1 by simp
    have "\<And>p d. list_all settled (orders (snd (updateOrderDocuments ?oid p d ?w2)))"
      using updateOrderDocuments_settled [OF s2 f] by simp
    then have d: "\<And>p d e w3. updateOrderDocuments ?oid p d ?w2 = (e, w3) \<Longrightarrow> list_all settled (orders w3)"
      by (metis snd_conv)
    show ?thesis
      using u Inr s1 assms
      by (auto simp: handleCheckoutSessionCompleted_def Let_def
            split: option.splits prod.splits sum.splits dest: d)
  qed
qed

lemma webhook_settled:
  assumes "list_all settled (orders w)"
  shows "list_all settled (orders (snd (webhook ce fx req w)))"
proof -
  have a: "\<And>e w1 s. handleCheckoutSessionCompleted fx s w = (e, w1) \<Longrightarrow> list_all settled (orders w1)"
    using handleCompleted_settled [OF assms] by (metis snd_conv)
  have b: "\<And>oid. list_all settled (orders (snd (updateOrderStatus oid Failed no_additional_data w)))"
    using updateOrderStatus_settled [OF _ assms] by (metis order_status.distinct(3) surjective_pairing)
  show ?thesis
    using assms
    by (auto simp: webhook_def handleCheckoutSessionExpired_def b
          split: option.splits prod.splits sum.splits dest!: a)
qed

lemma refund_settled:
  assumes "list_all settled (orders w)"
  shows "list_all settled (orders (snd (adminService_processRefund oid reason adminId outcome now w)))"
  using assms
  by (auto simp: adminService_processRefund_def paymentService_processRefund_def Let_def
        settled_markRefunded
        split: option.splits prod.splits sum.splits
        dest: update_row_list_all [where P = settled])

lemma cleanupOne_settled:
  "list_all settled (orders w) \<Longrightarrow> list_all settled (orders (cleanupOne del r w))"
  by (auto simp: cleanupOne_def settled_clearDocuments split: option.splits
        dest: update_row_list_all [where P = settled])

lemma cleanup_fold_settled:
  "list_all settled (orders w) \<Longrightarrow> list_all settled (orders (fold (cleanupOne del) rs w))"
  by (induction rs arbitrary: w) (simp_all add: cleanupOne_settled)

lemma create_settled:
  "list_all settled (orders w) \<Longrightarrow>
   list_all settled (orders (snd (createPendingOrder cal new_id now tid fd email w)))"
  by (simp add: createPendingOrder_def Let_def settled_def artifacts_def split: option.splits)

lemma step_settled: "list_all settled (orders w) \<Longrightarrow> list_all settled (orders (step ce op w))"
  by (cases op)
     (simp_all add: create_settled webhook_settled refund_settled cleanup_fold_settled
        cleanupExpiredOrders_def)

lemma run_settled: "list_all settled (orders w) \<Longrightarrow> list_all settled (orders (run ce ops w))"
  unfolding run_def by (induction ops arbitrary: w) (simp_all add: step_settled)

lemma refund_keeps_artifacts:
  "map artifacts (orders (snd (adminService_processRefund oid reason adminId outcome now w)))
     = map artifacts (orders w)"
  by (auto simp: adminService_processRefund_def paymentService_processRefund_def Let_def
        markRefunded_def artifacts_def
        split: option.splits prod.splits sum.splits
        dest: update_row_map_inv [where g = artifacts])

text \<open>
  C5 as stated fails: a refund changes the status and nothing else. The shop's order is
  created, paid and fulfilled, then refunded; it is \<open>refunded\<close> and still records both
  artifacts.
\<close>

theorem refunded_order_keeps_artifacts:
  "map status
     (orders (run ex_constructEvent
        [ex_create, Webhook all_fine (signed ''completed''),
         Refund ''o1'' ''duplicate'' ''admin'' (Inr (''re_1'', 999)) 5000]
        (initial [ex_template]))) = [Refunded] \<and>
   map artifacts
     (orders (run ex_constructEvent
        [ex_create, Webhook all_fine (signed ''completed''),
         Refund ''o1'' ''duplicate'' ''admin'' (Inr (''re_1'', 999)) 5000]
        (initial [ex_template])))
     = [[''https://r2/documents/o1/o1.pdf'', ''https://r2/documents/o1/o1.docx'']]"
  by code_simp

text \<open>
  C5, amended: in every state reached from the empty order table by checkout requests,
  webhook deliveries, refunds and clean-up passes, an order with a non-empty artifact
  list is no longer pending (it was marked paid before its documents were recorded; it
  may since have become failed or refunded). A refund leaves the artifact pointers of
  every order as they were.
\<close>

theorem artifacts_only_after_payment:
  "(\<forall>r \<in> set (orders (run ce ops (initial ts))). artifacts r \<noteq> [] \<longrightarrow> status r \<noteq> Pending) \<and>
   map artifacts (orders (snd (adminService_processRefund oid reason adminId outcome now w)))
     = map artifacts (orders w)"
proof (rule conjI)
  have "list_all settled (orders (initial ts))"
    by (simp add: initial_def)
  then have "list_all settled (orders (run ce ops (initial ts)))"
    by (rule run_settled)
  then show "\<forall>r \<in> set (orders (run ce ops (initial ts))). artifacts r \<noteq> [] \<longrightarrow> status r \<noteq> Pending"
    by (auto simp: list_all_iff settled_def)
next
  show "map artifacts (orders (snd (adminService_processRefund oid reason adminId outcome now w)))
     = map artifacts (orders w)"
    by (rule refund_keeps_artifacts)
qed

text \<open>The amended C5 at the shop's order, fulfilled and then refunded.\<close>

theorem artifacts_only_after_payment_witness:
  "map artifacts (orders ex_paid)
     = [[''https://r2/documents/o1/o1.pdf'', ''https://r2/documents/o1/o1.docx'']] \<and>
   filter (\<lambda>r. artifacts r \<noteq> [] \<and> status r = Pending) (orders ex_paid) = [] \<and>
   map artifacts (orders (snd (adminService_processRefund ''o1'' ''duplicate'' ''admin''
       (Inr (''re_1'', 999)) 5000 ex_paid))) = map artifacts (orders ex_paid)"
proof -
  have a: "map artifacts (orders ex_paid)
     = [[''https://r2/documents/o1/o1.pdf'', ''https://r2/documents/o1/o1.docx'']]"
    by code_simp
  note t = artifacts_only_after_payment
             [of ex_constructEvent "[ex_create, Webhook all_fine (signed ''completed'')]"
                 "[ex_template]" "''o1''" "''duplicate''" "''admin''" "Inr (''re_1'', 999)" 5000
                 ex_paid]
  from t have "\<forall>r \<in> set (orders ex_paid). artifacts r \<noteq> [] \<longrightarrow> status r \<noteq> Pending"
    unfolding ex_paid_def by blast
  then have "filter (\<lambda>r. artifacts r \<noteq> [] \<and> status r = Pending) (orders ex_paid) = []"
    by (auto simp: filter_empty_conv)
  with a t show ?thesis by blast
qed

section \<open>C6: the amount of a paid order\<close>

lemma documentData_amount: "amount (documentData p d r) = amount r"
  by (simp add: documentData_def)

lemma updateData_paid_amount:
  "amount (updateData Paid (paidData s) r) =
     (case amount_total s of
        None \<Rightarrow> amount r
      | Some n \<Rightarrow> if n \<noteq> 0 then of_int n / 100 else amount r)"
  by (simp add: updateData_def paidData_def sessionAmount_def split: option.splits)

text \<open>
  Wherever the completed handler stops, the order it names has gone through
  \<open>updateOrderStatus\<close> with the session's data.
\<close>

lemma handle_completed_order:
  assumes md: "truthy (metadata s ''orderId'')" "truthy (metadata s ''templateId'')"
              "truthy (metadata s ''customerEmail'')" "truthy (metadata s ''formData'')"
    and found: "findUnique (the (metadata s ''orderId'')) (orders w) = Some r"
  shows "\<exists>r'. findUnique (the (metadata s ''orderId''))
                 (orders (snd (handleCheckoutSessionCompleted fx s w))) = Some r' \<and>
              status r' = Paid \<and> amount r' = amount (updateData Paid (paidData s) r)"
proof -
  let ?oid = "the (metadata s ''orderId'')"
  let ?r1 = "updateData Paid (paidData s) r"
  from find_update_row [OF found, of "updateData Paid (paidData s)"]
  obtain rows1 where
    u1: "update_row ?oid (updateData Paid (paidData s)) (orders w) = Some (?r1, rows1)"
    by blast
  have f1: "findUnique ?oid rows1 = Some ?r1"
    using update_row_find_same [OF u1] by (simp add: updateData_id)
  have s1: "status ?r1 = Paid" by (simp add: updateData_status)
  show ?thesis
  proof (cases "json_parses fx")
    case False
    with md u1 f1 s1 show ?thesis
      by (simp add: handleCheckoutSessionCompleted_def updateOrderStatus_def)
  next
    case True
    show ?thesis
    proof (cases "documents fx")
      case None
      with True md u1 f1 s1 show ?thesis
        by (simp add: handleCheckoutSessionCompleted_def updateOrderStatus_def)
    next
      case (Some pd)
      obtain p d where pd: "pd = (p, d)" by (cases pd)
      let ?r2 = "documentData (Some p) (Some d) ?r1"
      from find_update_row [OF f1, of "documentData (Some p) (Some d)"]
      obtain rows2 where
        u2: "update_row ?oid (documentData (Some p) (Some d)) rows1 = Some (?r2, rows2)"
        by blast
      have f2: "findUnique ?oid rows2 = Some ?r2"
        using update_row_find_same [OF u2] by (simp add: documentData_id)
      have "status ?r2 = Paid" "amount ?r2 = amount ?r1"
        by (simp_all add: documentData_status documentData_amount updateData_status)
      with True Some pd md u1 u2 f2 show ?thesis
        by (simp add: handleCheckoutSessionCompleted_def updateOrderStatus_def
              updateOrderDocuments_def Let_def)
    qed
  qed
qed

text \<open>
  C6 as stated fails: the amount of the webhook payload is written over the stored one,
  and nothing compares the two. The shop's pending order holds the agreed 9.99; the
  verified completed-session event reporting 500 cents is answered 200 and the order is
  \<open>paid\<close> with amount 5.
\<close>

theorem webhook_amount_replaces_price:
  "map amount (orders ex_pending) = [999 / 100] \<and>
   fst (webhook ex_constructEvent all_fine (signed ''underpaid'') ex_pending) = Received \<and>
   map status (orders (snd (webhook ex_constructEvent all_fine (signed ''underpaid'') ex_pending)))
     = [Paid] \<and>
   map amount (orders (snd (webhook ex_constructEvent all_fine (signed ''underpaid'') ex_pending)))
     = [5]"
  by code_simp

text \<open>
  C6, amended: for every completed-session event that carries its metadata and names an
  existing order, the order's amount after the handler is the payload's
  \<open>amount_total / 100\<close> when \<open>amount_total\<close> is a non-zero number, and the stored amount
  otherwise; the payload amount is not compared with the stored one. This holds
  wherever the handler stops afterwards (failed parsing, generation or e-mail).
\<close>

theorem paid_amount_from_webhook:
  assumes "truthy (metadata s ''orderId'')" "truthy (metadata s ''templateId'')"
          "truthy (metadata s ''customerEmail'')" "truthy (metadata s ''formData'')"
    and "findUnique (the (metadata s ''orderId'')) (orders w) = Some r"
  shows "\<exists>r'. findUnique (the (metadata s ''orderId''))
                 (orders (snd (handleCheckoutSessionCompleted fx s w))) = Some r' \<and>
              status r' = Paid \<and>
              amount r' =
                (case amount_total s of
                   None \<Rightarrow> amount r
                 | Some n \<Rightarrow> if n \<noteq> 0 then of_int n / 100 else amount r)"
  using handle_completed_order [OF assms, of fx] by (simp add: updateData_paid_amount)

text \<open>The amended C6 at the shop's pending order and the event reporting 500 cents.\<close>

theorem paid_amount_from_webhook_witness:
  "map_option amount (findUnique ''o1'' (orders ex_pending)) = Some (999 / 100) \<and>
   amount_total (event_object ex_underpaid) = Some 500 \<and>
   (\<exists>r'. findUnique ''o1''
            (orders (snd (handleCheckoutSessionCompleted all_fine (event_object ex_underpaid)
               ex_pending))) = Some r' \<and>
         status r' = Paid \<and> amount r' = 5)"
proof -
  let ?s = "event_object ex_underpaid"
  have md: "truthy (metadata ?s ''orderId'')" "truthy (metadata ?s ''templateId'')"
           "truthy (metadata ?s ''customerEmail'')" "truthy (metadata ?s ''formData'')"
    and oid: "the (metadata ?s ''orderId'') = ''o1''"
    and tot: "amount_total ?s = Some 500"
    by (simp_all add: ex_underpaid_def ex_session_def)
  have a: "map_option amount (findUnique ''o1'' (orders ex_pending)) = Some (999 / 100)"
    by code_simp
  then obtain r where found: "findUnique ''o1'' (orders ex_pending) = Some r"
    by auto
  from paid_amount_from_webhook [OF md, of ex_pending r all_fine] found oid tot
  have "\<exists>r'. findUnique ''o1''
            (orders (snd (handleCheckoutSessionCompleted all_fine ?s ex_pending))) = Some r' \<and>
         status r' = Paid \<and> amount r' = 5"
    by simp
  with a tot show ?thesis by blast
qed

section \<open>C7 and C8: refunds\<close>

lemma markRefunded_id: "order_id (markRefunded now r) = order_id r"
  by (simp add: markRefunded_def)

lemma refund_not_paid:
  "findUnique oid (orders w) = Some r \<Longrightarrow> status r \<noteq> Paid \<Longrightarrow>
   adminService_processRefund oid reason adminId outcome now w
     = (refund_failure ''Only paid orders can be refunded'', w)"
  by (simp add: adminService_processRefund_def)

lemma refund_gateway_failure:
  "findUnique oid (orders w) = Some r \<Longrightarrow> status r = Paid \<Longrightarrow>
   \<exists>w'. adminService_processRefund oid reason adminId (Inl m) now w = (refund_failure m, w') \<and>
        orders w' = orders w \<and> length (refund_calls w') = length (refund_calls w) + 1"
  by (simp add: adminService_processRefund_def paymentService_processRefund_def
        refund_failure_def Let_def)

lemma refund_gateway_success:
  assumes "findUnique oid (orders w) = Some r" "status r = Paid"
  shows "\<exists>w'. adminService_processRefund oid reason adminId (Inr (rid, cents)) now w
              = (\<lparr> success = True, refundId = Some rid,
                   refund_amount = Some (of_int cents / 100), message = None \<rparr>, w') \<and>
              findUnique oid (orders w') = Some (markRefunded now r) \<and>
              length (refund_calls w') = length (refund_calls w) + 1"
proof -
  from find_update_row [OF assms(1), of "markRefunded now"]
  obtain rows where u: "update_row oid (markRefunded now) (orders w) = Some (markRefunded now r, rows)"
    by blast
  have "findUnique oid rows = Some (markRefunded now r)"
    using update_row_find_same [OF u] by (simp add: markRefunded_id)
  with assms u show ?thesis
    by (simp add: adminService_processRefund_def paymentService_processRefund_def Let_def)
qed

lemma refund_success_paid:
  assumes "success (fst (adminService_processRefund oid reason adminId outcome now w))"
  shows "\<exists>r. findUnique oid (orders w) = Some r \<and> status r = Paid"
proof (cases "findUnique oid (orders w)")
  case None
  with assms show ?thesis
    by (simp add: adminService_processRefund_def refund_failure_def)
next
  case (Some r)
  show ?thesis
  proof (cases "status r = Paid")
    case True
    with Some show ?thesis by simp
  next
    case False
    with Some assms show ?thesis
      by (simp add: refund_not_paid refund_failure_def)
  qed
qed

text \<open>
  C7: a refund succeeds only on an order whose status is \<open>paid\<close>. For a paid order, when
  the gateway call fails the caller gets the gateway's error and the order table is
  exactly as before (the order is still \<open>paid\<close>); when the gateway call succeeds the
  caller gets the refund's id and amount and the order is stored as \<open>refunded\<close>.
\<close>

theorem refund_paid_only_no_partial_state:
  "(success (fst (adminService_processRefund oid reason adminId outcome now w)) \<longrightarrow>
      (\<exists>r. findUnique oid (orders w) = Some r \<and> status r = Paid)) \<and>
   (\<forall>r m. findUnique oid (orders w) = Some r \<and> status r = Paid \<longrightarrow>
      fst (adminService_processRefund oid reason adminId (Inl m) now w) = refund_failure m \<and>
      \<not> success (refund_failure m) \<and>
      orders (snd (adminService_processRefund oid reason adminId (Inl m) now w)) = orders w) \<and>
   (\<forall>r rid cents. findUnique oid (orders w) = Some r \<and> status r = Paid \<longrightarrow>
      fst (adminService_processRefund oid reason adminId (Inr (rid, cents)) now w)
        = \<lparr> success = True, refundId = Some rid,
            refund_amount = Some (of_int cents / 100), message = None \<rparr> \<and>
      map_option status
        (findUnique oid (orders (snd (adminService_processRefund oid reason adminId
           (Inr (rid, cents)) now w)))) = Some Refunded)"
proof (intro conjI)
  show "success (fst (adminService_processRefund oid reason adminId outcome now w)) \<longrightarrow>
      (\<exists>r. findUnique oid (orders w) = Some r \<and> status r = Paid)"
    using refund_success_paid by blast
next
  show "\<forall>r m. findUnique oid (orders w) = Some r \<and> status r = Paid \<longrightarrow>
      fst (adminService_processRefund oid reason adminId (Inl m) now w) = refund_failure m \<and>
      \<not> success (refund_failure m) \<and>
      orders (snd (adminService_processRefund oid reason adminId (Inl m) now w)) = orders w"
  proof (intro allI impI)
    fix r m assume a: "findUnique oid (orders w) = Some r \<and> status r = Paid"
    from refund_gateway_failure [of oid w r reason adminId m now] a
    show "fst (adminService_processRefund oid reason adminId (Inl m) now w) = refund_failure m \<and>
      \<not> success (refund_failure m) \<and>
      orders (snd (adminService_processRefund oid reason adminId (Inl m) now w)) = orders w"
      by (auto simp: refund_failure_def)
  qed
next
  show "\<forall>r rid cents. findUnique oid (orders w) = Some r \<and> status r = Paid \<longrightarrow>
      fst (adminService_processRefund oid reason adminId (Inr (rid, cents)) now w)
        = \<lparr> success = True, refundId = Some rid,
            refund_amount = Some (of_int cents / 100), message = None \<rparr> \<and>
      map_option status
        (findUnique oid (orders (snd (adminService_processRefund oid reason adminId
           (Inr (rid, cents)) now w)))) = Some Refunded"
  proof (intro allI impI)
    fix r rid cents assume a: "findUnique oid (orders w) = Some r \<and> status r = Paid"
    from refund_gateway_success [of oid w r reason adminId rid cents now] a
    show "fst (adminService_processRefund oid reason adminId (Inr (rid, cents)) now w)
        = \<lparr> success = True, refundId = Some rid,
            refund_amount = Some (of_int cents / 100), message = None \<rparr> \<and>
      map_option status
        (findUnique oid (orders (snd (adminService_processRefund oid reason adminId
           (Inr (rid, cents)) now w)))) = Some Refunded"
      by (auto simp: markRefunded_def)
  qed
qed

text \<open>
  C7 at the shop's paid order: a declined gateway call leaves it paid, an accepted one
  refunds it.
\<close>

theorem refund_paid_only_no_partial_state_witness:
  "map_option status (findUnique ''o1'' (orders ex_paid)) = Some Paid \<and>
   fst (adminService_processRefund ''o1'' ''duplicate'' ''admin'' (Inl ''card_declined'') 5000 ex_paid)
     = refund_failure ''card_declined'' \<and>
   orders (snd (adminService_processRefund ''o1'' ''duplicate'' ''admin'' (Inl ''card_declined'')
      5000 ex_paid)) = orders ex_paid \<and>
   success (fst (adminService_processRefund ''o1'' ''duplicate'' ''admin'' (Inr (''re_1'', 999))
      5000 ex_paid)) \<and>
   map_option status
     (findUnique ''o1'' (orders (snd (adminService_processRefund ''o1'' ''duplicate'' ''admin''
        (Inr (''re_1'', 999)) 5000 ex_paid)))) = Some Refunded"
proof -
  have h: "map_option status (findUnique ''o1'' (orders ex_paid)) = Some Paid"
    by code_simp
  then obtain r where f: "findUnique ''o1'' (orders ex_paid) = Some r" "status r = Paid"
    by auto
  note t = refund_paid_only_no_partial_state
             [of "''o1''" "''duplicate''" "''admin''" "Inr (''re_1'', 999)" 5000 ex_paid]
  from t f have
    "fst (adminService_processRefund ''o1'' ''duplicate'' ''admin'' (Inl ''card_declined'') 5000 ex_paid)
       = refund_failure ''card_declined''"
    "orders (snd (adminService_processRefund ''o1'' ''duplicate'' ''admin'' (Inl ''card_declined'')
      5000 ex_paid)) = orders ex_paid"
    "fst (adminService_processRefund ''o1'' ''duplicate'' ''admin'' (Inr (''re_1'', 999)) 5000 ex_paid)
        = \<lparr> success = True, refundId = Some ''re_1'',
            refund_amount = Some (of_int 999 / 100), message = None \<rparr>"
    "map_option status
     (findUnique ''o1'' (orders (snd (adminService_processRefund ''o1'' ''duplicate'' ''admin''
        (Inr (''re_1'', 999)) 5000 ex_paid)))) = Some Refunded"
    by blast+
  with h show ?thesis by simp
qed

text \<open>
  C8 as stated fails in its second half: a repeated refund does not return the original
  result. The shop's paid order is refunded (refund \<open>re_1\<close>, amount 9.99); the second
  call is answered with a failure that carries no refund id and no amount. One gateway
  call was made in all.
\<close>

theorem repeated_refund_is_rejected:
  "fst (adminService_processRefund ''o1'' ''duplicate'' ''admin'' (Inr (''re_1'', 999)) 5000 ex_paid)
     = \<lparr> success = True, refundId = Some ''re_1'', refund_amount = Some (999 / 100),
         message = None \<rparr> \<and>
   success (fst (adminService_processRefund ''o1'' ''duplicate'' ''admin'' (Inr (''re_2'', 999)) 6000
          (snd (adminService_processRefund ''o1'' ''duplicate'' ''admin'' (Inr (''re_1'', 999))
             5000 ex_paid)))) = False \<and>
   refundId (fst (adminService_processRefund ''o1'' ''duplicate'' ''admin'' (Inr (''re_2'', 999)) 6000
          (snd (adminService_processRefund ''o1'' ''duplicate'' ''admin'' (Inr (''re_1'', 999))
             5000 ex_paid)))) = None \<and>
   refund_amount (fst (adminService_processRefund ''o1'' ''duplicate'' ''admin''
          (Inr (''re_2'', 999)) 6000
          (snd (adminService_processRefund ''o1'' ''duplicate'' ''admin'' (Inr (''re_1'', 999))
             5000 ex_paid)))) = None \<and>
   length (refund_calls
      (snd (adminService_processRefund ''o1'' ''duplicate'' ''admin'' (Inr (''re_2'', 999)) 6000
          (snd (adminService_processRefund ''o1'' ''duplicate'' ''admin'' (Inr (''re_1'', 999))
             5000 ex_paid))))) = 1"
  by code_simp

text \<open>
  C8, amended: a refund of an order that is not \<open>paid\<close> (pending, failed, or already
  refunded) is rejected: the result is a failure without refund id or amount, no
  gateway call is made and nothing is written (the world is as before). In particular,
  after a successful refund of a paid order a repeated refund is rejected in this way;
  the original refund id and amount are not returned again.
\<close>

theorem refund_rejected_unless_paid:
  "(\<forall>r. findUnique oid (orders w) = Some r \<and> status r \<noteq> Paid \<longrightarrow>
      \<not> success (fst (adminService_processRefund oid reason adminId outcome now w)) \<and>
      refundId (fst (adminService_processRefund oid reason adminId outcome now w)) = None \<and>
      refund_amount (fst (adminService_processRefund oid reason adminId outcome now w)) = None \<and>
      snd (adminService_processRefund oid reason adminId outcome now w) = w) \<and>
   (\<forall>r rid cents w1.
      findUnique oid (orders w) = Some r \<and> status r = Paid \<and>
      w1 = snd (adminService_processRefund oid reason adminId (Inr (rid, cents)) now w) \<longrightarrow>
      \<not> success (fst (adminService_processRefund oid reason2 adminId2 outcome2 now2 w1)) \<and>
      refundId (fst (adminService_processRefund oid reason2 adminId2 outcome2 now2 w1)) = None \<and>
      refund_amount (fst (adminService_processRefund oid reason2 adminId2 outcome2 now2 w1))
        = None \<and>
      snd (adminService_processRefund oid reason2 adminId2 outcome2 now2 w1) = w1)"
proof (rule conjI)
  show "\<forall>r. findUnique oid (orders w) = Some r \<and> status r \<noteq> Paid \<longrightarrow>
      \<not> success (fst (adminService_processRefund oid reason adminId outcome now w)) \<and>
      refundId (fst (adminService_processRefund oid reason adminId outcome now w)) = None \<and>
      refund_amount (fst (adminService_processRefund oid reason adminId outcome now w)) = None \<and>
      snd (adminService_processRefund oid reason adminId outcome now w) = w"
    by (simp add: refund_not_paid refund_failure_def)
next
  show "\<forall>r rid cents w1.
      findUnique oid (orders w) = Some r \<and> status r = Paid \<and>
      w1 = snd (adminService_processRefund oid reason adminId (Inr (rid, cents)) now w) \<longrightarrow>
      \<not> success (fst (adminService_processRefund oid reason2 adminId2 outcome2 now2 w1)) \<and>
      refundId (fst (adminService_processRefund oid reason2 adminId2 outcome2 now2 w1)) = None \<and>
      refund_amount (fst (adminService_processRefund oid reason2 adminId2 outcome2 now2 w1))
        = None \<and>
      snd (adminService_processRefund oid reason2 adminId2 outcome2 now2 w1) = w1"
  proof (intro allI impI)
    fix r rid cents w1
    assume a: "findUnique oid (orders w) = Some r \<and> status r = Paid \<and>
      w1 = snd (adminService_processRefund oid reason adminId (Inr (rid, cents)) now w)"
    from refund_gateway_success [of oid w r reason adminId rid cents now] a
    have "findUnique oid (orders w1) = Some (markRefunded now r)"
      by auto
    moreover have "status (markRefunded now r) \<noteq> Paid"
      by (simp add: markRefunded_def)
    ultimately have "adminService_processRefund oid reason2 adminId2 outcome2 now2 w1
        = (refund_failure ''Only paid orders can be refunded'', w1)"
      by (rule refund_not_paid)
    then show "\<not> success (fst (adminService_processRefund oid reason2 adminId2 outcome2 now2 w1)) \<and>
      refundId (fst (adminService_processRefund oid reason2 adminId2 outcome2 now2 w1)) = None \<and>
      refund_amount (fst (adminService_processRefund oid reason2 adminId2 outcome2 now2 w1))
        = None \<and>
      snd (adminService_processRefund oid reason2 adminId2 outcome2 now2 w1) = w1"
      by (simp add: refund_failure_def)
  qed
qed

text \<open>
  The amended C8 at the shop: the pending order cannot be refunded, and the paid order
  cannot be refunded twice.
\<close>

theorem refund_rejected_unless_paid_witness:
  "map_option status (findUnique ''o1'' (orders ex_pending)) = Some Pending \<and>
   success (fst (adminService_processRefund ''o1'' ''duplicate'' ''admin'' (Inr (''re_1'', 999))
      5000 ex_pending)) = False \<and>
   snd (adminService_processRefund ''o1'' ''duplicate'' ''admin'' (Inr (''re_1'', 999)) 5000
      ex_pending) = ex_pending \<and>
   map_option status (findUnique ''o1'' (orders ex_paid)) = Some Paid \<and>
   success (fst (adminService_processRefund ''o1'' ''again'' ''admin'' (Inr (''re_2'', 999)) 6000
          (snd (adminService_processRefund ''o1'' ''duplicate'' ''admin'' (Inr (''re_1'', 999))
             5000 ex_paid)))) = False \<and>
   snd (adminService_processRefund ''o1'' ''again'' ''admin'' (Inr (''re_2'', 999)) 6000
          (snd (adminService_processRefund ''o1'' ''duplicate'' ''admin'' (Inr (''re_1'', 999))
             5000 ex_paid)))
     = snd (adminService_processRefund ''o1'' ''duplicate'' ''admin''
          (Inr (''re_1'', 999)) 5000 ex_paid)"
proof -
  have h1: "map_option status (findUnique ''o1'' (orders ex_pending)) = Some Pending"
    and h2: "map_option status (findUnique ''o1'' (orders ex_paid)) = Some Paid"
    by code_simp+
  from h1 obtain r1 where f1: "findUnique ''o1'' (orders ex_pending) = Some r1" "status r1 \<noteq> Paid"
    by auto
  from h2 obtain r2 where f2: "findUnique ''o1'' (orders ex_paid) = Some r2" "status r2 = Paid"
    by auto
  from refund_rejected_unless_paid
         [of "''o1''" ex_pending "''duplicate''" "''admin''" "Inr (''re_1'', 999)" 5000] f1
  have a: "\<not> success (fst (adminService_processRefund ''o1'' ''duplicate'' ''admin''
             (Inr (''re_1'', 999)) 5000 ex_pending))"
          "snd (adminService_processRefund ''o1'' ''duplicate'' ''admin'' (Inr (''re_1'', 999)) 5000
             ex_pending) = ex_pending"
    by blast+
  let ?w1 = "snd (adminService_processRefund ''o1'' ''duplicate'' ''admin'' (Inr (''re_1'', 999))
             5000 ex_paid)"
  from refund_rejected_unless_paid
         [of "''o1''" ex_paid "''duplicate''" "''admin''" "Inr (''re_1'', 999)" 5000
             "''again''" "''admin''" "Inr (''re_2'', 999)" 6000] f2
  have b: "\<not> success (fst (adminService_processRefund ''o1'' ''again'' ''admin''
             (Inr (''re_2'', 999)) 6000 ?w1))"
          "snd (adminService_processRefund ''o1'' ''again'' ''admin'' (Inr (''re_2'', 999)) 6000 ?w1)
             = ?w1"
    by blast+
  from h1 h2 a b show ?thesis by simp
qed

section \<open>C9: the download checks\<close>

text \<open>
  C9: for a request that passes the validation chains, the download route answers 404
  when no order matches id and e-mail; otherwise 403 when the order is not paid,
  whatever its expiry and artifacts; otherwise 410 when the request is made after
  \<open>downloadExpiry\<close>, whatever the artifact pointers and the signer; otherwise 503 when
  an artifact pointer is missing.
\<close>

theorem download_checks_in_order:
  assumes "oid \<noteq> []" "isEmail email"
  shows "(getOrderByIdAndEmail sameEmail oid email w = None \<longrightarrow>
            download isEmail sameEmail getSignedUrl now oid email w = OrderNotFound \<and>
            api_status (download isEmail sameEmail getSignedUrl now oid email w) = 404) \<and>
         (\<forall>r. getOrderByIdAndEmail sameEmail oid email w = Some r \<and> status r \<noteq> Paid \<longrightarrow>
            download isEmail sameEmail getSignedUrl now oid email w = OrderNotPaid \<and>
            api_status (download isEmail sameEmail getSignedUrl now oid email w) = 403) \<and>
         (\<forall>r. getOrderByIdAndEmail sameEmail oid email w = Some r \<and> status r = Paid \<and>
              downloadExpiry r < now \<longrightarrow>
            download isEmail sameEmail getSignedUrl now oid email w = DownloadExpired \<and>
            api_status (download isEmail sameEmail getSignedUrl now oid email w) = 410) \<and>
         (\<forall>r. getOrderByIdAndEmail sameEmail oid email w = Some r \<and> status r = Paid \<and>
              now \<le> downloadExpiry r \<and> (\<not> truthy (pdfUrl r) \<or> \<not> truthy (docxUrl r)) \<longrightarrow>
            download isEmail sameEmail getSignedUrl now oid email w = DocumentsNotReady \<and>
            api_status (download isEmail sameEmail getSignedUrl now oid email w) = 503)"
  using assms by (auto simp: download_def)

text \<open>
  C9 at the shop's paid order, whose artifacts are recorded, eight days after its
  creation: 410. The same request one second after creation gets its links.
\<close>

theorem download_checks_in_order_witness:
  "ex_isEmail ''ann@example.com'' \<and>
   map_option status (getOrderByIdAndEmail exactEmail ''o1'' ''ann@example.com'' ex_paid)
     = Some Paid \<and>
   map_option artifacts (getOrderByIdAndEmail exactEmail ''o1'' ''ann@example.com'' ex_paid)
     = Some [''https://r2/documents/o1/o1.pdf'', ''https://r2/documents/o1/o1.docx''] \<and>
   map_option downloadExpiry (getOrderByIdAndEmail exactEmail ''o1'' ''ann@example.com'' ex_paid)
     = Some (utc_plusSevenDays 1000) \<and>
   api_status (download ex_isEmail exactEmail ex_getSignedUrl eight_days_later ''o1''
     ''ann@example.com'' ex_paid) = 410 \<and>
   api_status (download ex_isEmail exactEmail ex_getSignedUrl 2000 ''o1'' ''ann@example.com''
     ex_paid) = 200"
proof -
  have e: "ex_isEmail ''ann@example.com''" and n: "''o1'' \<noteq> []"
    by (simp_all add: ex_isEmail_def)
  have s: "map_option status (getOrderByIdAndEmail exactEmail ''o1'' ''ann@example.com'' ex_paid)
             = Some Paid"
    and a: "map_option artifacts (getOrderByIdAndEmail exactEmail ''o1'' ''ann@example.com''
              ex_paid)
              = Some [''https://r2/documents/o1/o1.pdf'', ''https://r2/documents/o1/o1.docx'']"
    and x: "map_option downloadExpiry (getOrderByIdAndEmail exactEmail ''o1''
              ''ann@example.com'' ex_paid) = Some (utc_plusSevenDays 1000)"
    and ok: "api_status (download ex_isEmail exactEmail ex_getSignedUrl 2000 ''o1''
               ''ann@example.com'' ex_paid) = 200"
    by code_simp+
  from s x obtain r where
    r: "getOrderByIdAndEmail exactEmail ''o1'' ''ann@example.com'' ex_paid = Some r"
       "status r = Paid" "downloadExpiry r = utc_plusSevenDays 1000"
    by auto
  then have late: "downloadExpiry r < eight_days_later"
    by (simp add: utc_plusSevenDays_def eight_days_later_def)
  from download_checks_in_order
         [where isEmail = ex_isEmail and email = "''ann@example.com''" and w = ex_paid
            and sameEmail = exactEmail and getSignedUrl = ex_getSignedUrl
            and now = eight_days_later, OF n e] r late
  have "api_status (download ex_isEmail exactEmail ex_getSignedUrl eight_days_later ''o1''
          ''ann@example.com'' ex_paid) = 410"
    by blast
  with e s a x ok show ?thesis by simp
qed

section \<open>C10: the e-mail of the customer lookup\<close>

lemma find_None_iff_all: "find P xs = None \<longleftrightarrow> (\<forall>x \<in> set xs. \<not> P x)"
  by (induction xs) auto

lemma find_Some_member: "find P xs = Some x \<Longrightarrow> x \<in> set xs \<and> P x"
  by (induction xs) (auto split: if_splits)

text \<open>
  C10: the services and routes hand the supplied e-mail to the database as it is, and
  with the column compared as plain text (\<open>exactEmail\<close>) the lookup matches it against
  the stored \<open>customerEmail\<close> by exact, case-sensitive equality. An order returned is a
  row of the table with the requested id whose stored e-mail equals the supplied one
  character for character. Whenever the table holds such a row, wherever it stands, the
  lookup returns one and a validated status request is answered 200. When every order
  with the requested id has a different stored e-mail (for instance one that differs in
  letter case only) no order is returned, and the status and download routes answer
  404 to a request that passes validation.
\<close>

theorem lookup_compares_email_exactly:
  "(\<forall>r. getOrderByIdAndEmail exactEmail oid email w = Some r \<longrightarrow>
      r \<in> set (orders w) \<and> order_id r = oid \<and> customerEmail r = email) \<and>
   ((\<exists>r \<in> set (orders w). order_id r = oid \<and> customerEmail r = email) \<longrightarrow>
      (\<exists>r. getOrderByIdAndEmail exactEmail oid email w = Some r \<and>
           order_id r = oid \<and> customerEmail r = email) \<and>
      (oid \<noteq> [] \<and> isEmail email \<longrightarrow>
         api_status (getOrder isEmail exactEmail oid email w) = 200)) \<and>
   ((\<forall>r \<in> set (orders w). order_id r = oid \<longrightarrow> customerEmail r \<noteq> email) \<longrightarrow>
      getOrderByIdAndEmail exactEmail oid email w = None \<and>
      (oid \<noteq> [] \<and> isEmail email \<longrightarrow>
         api_status (getOrder isEmail exactEmail oid email w) = 404 \<and>
         api_status (download isEmail exactEmail getSignedUrl now oid email w) = 404))"
proof (intro conjI)
  show "\<forall>r. getOrderByIdAndEmail exactEmail oid email w = Some r \<longrightarrow>
      r \<in> set (orders w) \<and> order_id r = oid \<and> customerEmail r = email"
    unfolding getOrderByIdAndEmail_def exactEmail_def
    by (auto dest: find_Some_member)
next
  show "(\<exists>r \<in> set (orders w). order_id r = oid \<and> customerEmail r = email) \<longrightarrow>
      (\<exists>r. getOrderByIdAndEmail exactEmail oid email w = Some r \<and>
           order_id r = oid \<and> customerEmail r = email) \<and>
      (oid \<noteq> [] \<and> isEmail email \<longrightarrow>
         api_status (getOrder isEmail exactEmail oid email w) = 200)"
  proof
    assume ex: "\<exists>r \<in> set (orders w). order_id r = oid \<and> customerEmail r = email"
    then have "getOrderByIdAndEmail exactEmail oid email w \<noteq> None"
      by (auto simp: getOrderByIdAndEmail_def exactEmail_def find_None_iff_all)
    then obtain r where f: "getOrderByIdAndEmail exactEmail oid email w = Some r"
      by auto
    then have "order_id r = oid \<and> customerEmail r = email"
      unfolding getOrderByIdAndEmail_def exactEmail_def
      by (auto dest: find_Some_member)
    with f show "(\<exists>r. getOrderByIdAndEmail exactEmail oid email w = Some r \<and>
           order_id r = oid \<and> customerEmail r = email) \<and>
      (oid \<noteq> [] \<and> isEmail email \<longrightarrow>
         api_status (getOrder isEmail exactEmail oid email w) = 200)"
      by (simp add: getOrder_def)
  qed
next
  show "(\<forall>r \<in> set (orders w). order_id r = oid \<longrightarrow> customerEmail r \<noteq> email) \<longrightarrow>
      getOrderByIdAndEmail exactEmail oid email w = None \<and>
      (oid \<noteq> [] \<and> isEmail email \<longrightarrow>
         api_status (getOrder isEmail exactEmail oid email w) = 404 \<and>
         api_status (download isEmail exactEmail getSignedUrl now oid email w) = 404)"
  proof
    assume "\<forall>r \<in> set (orders w). order_id r = oid \<longrightarrow> customerEmail r \<noteq> email"
    then have n: "getOrderByIdAndEmail exactEmail oid email w = None"
      by (auto simp: getOrderByIdAndEmail_def exactEmail_def find_None_iff_all)
    then show "getOrderByIdAndEmail exactEmail oid email w = None \<and>
      (oid \<noteq> [] \<and> isEmail email \<longrightarrow>
         api_status (getOrder isEmail exactEmail oid email w) = 404 \<and>
         api_status (download isEmail exactEmail getSignedUrl now oid email w) = 404)"
      by (simp add: getOrder_def download_def)
  qed
qed

text \<open>
  C10 at the shop with two orders. The second row, stored under \<open>bob@example.com\<close>, is
  found under exactly that e-mail and not under \<open>Bob@Example.com\<close>.
\<close>

theorem lookup_compares_email_exactly_witness:
  "map order_id (orders ex_two) = [''o1'', ''o2''] \<and>
   map customerEmail (orders ex_two) = [''ann@example.com'', ''bob@example.com''] \<and>
   ex_isEmail ''bob@example.com'' \<and> ex_isEmail ''Bob@Example.com'' \<and>
   map_option order_id (getOrderByIdAndEmail exactEmail ''o2'' ''bob@example.com'' ex_two)
     = Some ''o2'' \<and>
   api_status (getOrder ex_isEmail exactEmail ''o2'' ''bob@example.com'' ex_two) = 200 \<and>
   getOrderByIdAndEmail exactEmail ''o2'' ''Bob@Example.com'' ex_two = None \<and>
   api_status (getOrder ex_isEmail exactEmail ''o2'' ''Bob@Example.com'' ex_two) = 404 \<and>
   api_status (download ex_isEmail exactEmail ex_getSignedUrl 3000 ''o2'' ''Bob@Example.com''
     ex_two) = 404"
proof -
  have i: "map order_id (orders ex_two) = [''o1'', ''o2'']"
    and m: "map customerEmail (orders ex_two) = [''ann@example.com'', ''bob@example.com'']"
    by code_simp+
  have e: "ex_isEmail ''bob@example.com''" "ex_isEmail ''Bob@Example.com''"
    and n: "''o2'' \<noteq> []"
    by (simp_all add: ex_isEmail_def)
  have l: "getOrderByIdAndEmail exactEmail ''o2'' ''bob@example.com'' ex_two \<noteq> None"
    by code_simp
  then obtain r0 where "getOrderByIdAndEmail exactEmail ''o2'' ''bob@example.com'' ex_two = Some r0"
    by blast
  then have "r0 \<in> set (orders ex_two) \<and> order_id r0 = ''o2'' \<and> customerEmail r0 = ''bob@example.com''"
    unfolding getOrderByIdAndEmail_def exactEmail_def by (blast dest: find_Some_member)
  then have there:
    "\<exists>r \<in> set (orders ex_two). order_id r = ''o2'' \<and> customerEmail r = ''bob@example.com''"
    by blast
  have d: "''bob@example.com'' \<noteq> ''Bob@Example.com''" "''ann@example.com'' \<noteq> ''Bob@Example.com''"
    by simp_all
  have away:
    "\<forall>r \<in> set (orders ex_two). order_id r = ''o2'' \<longrightarrow> customerEmail r \<noteq> ''Bob@Example.com''"
  proof
    fix r assume "r \<in> set (orders ex_two)"
    then have "customerEmail r \<in> set (map customerEmail (orders ex_two))"
      by (rule imageI [of r "set (orders ex_two)" customerEmail, folded set_map])
    then have "customerEmail r = ''ann@example.com'' \<or> customerEmail r = ''bob@example.com''"
      unfolding m by simp
    with d show "order_id r = ''o2'' \<longrightarrow> customerEmail r \<noteq> ''Bob@Example.com''"
      by metis
  qed
  note t1 = lookup_compares_email_exactly
              [of "''o2''" "''bob@example.com''" ex_two ex_isEmail ex_getSignedUrl 3000]
  note f = t1 [THEN conjunct2, THEN conjunct1, THEN mp, OF there]
  from f [THEN conjunct1] obtain r where
    "getOrderByIdAndEmail exactEmail ''o2'' ''bob@example.com'' ex_two = Some r"
    "order_id r = ''o2''"
    by blast
  then have found1:
    "map_option order_id (getOrderByIdAndEmail exactEmail ''o2'' ''bob@example.com'' ex_two)
       = Some ''o2''"
    by simp
  have found2: "api_status (getOrder ex_isEmail exactEmail ''o2'' ''bob@example.com'' ex_two) = 200"
    using f [THEN conjunct2, THEN mp, OF conjI [OF n e(1)]] .
  note t2 = lookup_compares_email_exactly
              [of "''o2''" "''Bob@Example.com''" ex_two ex_isEmail ex_getSignedUrl 3000]
  note g = t2 [THEN conjunct2, THEN conjunct2, THEN mp, OF away]
  note g2 = g [THEN conjunct2, THEN mp, OF conjI [OF n e(2)]]
  from i m e found1 found2 g [THEN conjunct1] g2 [THEN conjunct1] g2 [THEN conjunct2]
  show ?thesis by blast
qed

end
